theory Spec2Isabelle
  imports Main
begin

section \<open>Strings, bytes and the two library functions the loop applies to its input\<close>

text \<open>
  A Go string is a sequence of bytes; it is modelled as \<open>string\<close> (a list of 8-bit
  characters).  The terminal escape sequences are the constants of lines 15-23 of both
  source files.  Text that is not ASCII in the source (the pictographs in front of the
  status messages) is written out as its UTF-8 bytes.
\<close>

definition ESC :: char where "ESC = CHR 0x1B"
definition LF :: char where "LF = CHR 0x0A"
definition CR :: char where "CR = CHR 0x0D"

definition Reset :: string where "Reset = ESC # ''[0m''"
definition Green :: string where "Green = ESC # ''[32m''"
definition Blue :: string where "Blue = ESC # ''[34m''"
definition Cyan :: string where "Cyan = ESC # ''[36m''"
definition Yellow :: string where "Yellow = ESC # ''[33m''"
definition Red :: string where "Red = ESC # ''[31m''"
definition Purple :: string where "Purple = ESC # ''[35m''"

text \<open>U+1F4DD, U+1F44B, U+1F9E0, U+2705 and U+274C in UTF-8.\<close>

definition memo :: string where "memo = [CHR 0xF0, CHR 0x9F, CHR 0x93, CHR 0x9D]"
definition wave :: string where "wave = [CHR 0xF0, CHR 0x9F, CHR 0x91, CHR 0x8B]"
definition brain :: string where "brain = [CHR 0xF0, CHR 0x9F, CHR 0xA7, CHR 0xA0]"
definition check_mark :: string where "check_mark = [CHR 0xE2, CHR 0x9C, CHR 0x85]"
definition cross_mark :: string where "cross_mark = [CHR 0xE2, CHR 0x9D, CHR 0x8C]"

text \<open>
  \<open>strings.TrimSpace\<close> and \<open>strings.ToLower\<close> belong to the Go standard library.  Both
  have a byte-wise path for input below \<open>utf8.RuneSelf\<close> (0x80), which is written out
  here, and hand any input with a byte at or above 0x80 to a Unicode routine
  (\<open>TrimFunc(s, unicode.IsSpace)\<close>, \<open>TrimRightFunc(s, unicode.IsSpace)\<close>,
  \<open>Map(unicode.ToLower, s)\<close>) that depends on the Unicode tables of the library.  Those
  three routines are parameters of the model: every theorem below holds for any choice
  of them.
\<close>

record strings_unicode =
  TrimFunc_IsSpace :: "string \<Rightarrow> string"
  TrimRightFunc_IsSpace :: "string \<Rightarrow> string"
  Map_ToLower :: "string \<Rightarrow> string"

definition RuneSelf :: nat where "RuneSelf = 0x80"

definition asciiSpace :: "char \<Rightarrow> bool" where
  "asciiSpace c = (c \<in> set [CHR 0x09, CHR 0x0A, CHR 0x0B, CHR 0x0C, CHR 0x0D, CHR 0x20])"

text \<open>
  The second loop of \<open>TrimSpace\<close> walks from the end of the string; the model walks the
  reversed string and returns the kept part in its original order.
\<close>

fun trimStop :: "strings_unicode \<Rightarrow> string \<Rightarrow> string" where
  "trimStop U [] = []"
| "trimStop U (c # r) =
     (if RuneSelf \<le> of_char c then TrimRightFunc_IsSpace U (rev (c # r))
      else if asciiSpace c then trimStop U r
      else rev (c # r))"

fun TrimSpace :: "strings_unicode \<Rightarrow> string \<Rightarrow> string" where
  "TrimSpace U [] = []"
| "TrimSpace U (c # s) =
     (if RuneSelf \<le> of_char c then TrimFunc_IsSpace U (c # s)
      else if asciiSpace c then TrimSpace U s
      else trimStop U (rev (c # s)))"

definition lowerByte :: "char \<Rightarrow> char" where
  "lowerByte c =
     (if (0x41::nat) \<le> of_char c \<and> of_char c \<le> (0x5A::nat)
      then char_of (of_char c + (32::nat)) else c)"

definition isASCII :: "string \<Rightarrow> bool" where
  "isASCII s = list_all (\<lambda>c. of_char c < RuneSelf) s"

definition ToLower :: "strings_unicode \<Rightarrow> string \<Rightarrow> string" where
  "ToLower U s = (if isASCII s then map lowerByte s else Map_ToLower U s)"

text \<open>
  A stand-in for the Unicode routines, used only to evaluate the model on ASCII input,
  where none of them is reached.
\<close>

definition noUnicode :: strings_unicode where
  "noUnicode = \<lparr>TrimFunc_IsSpace = (\<lambda>s. s), TrimRightFunc_IsSpace = (\<lambda>s. s),
     Map_ToLower = (\<lambda>s. s)\<rparr>"

section \<open>Data model\<close>

text \<open>
  An error value is modelled by its message (what \<open>%v\<close> prints).  \<open>api.Message\<close>,
  the requests and the streamed responses keep the fields the program reads or writes.
  The fields of the single-prompt variant that share a name with one of the chat
  variant carry the prefix \<open>Gen\<close>.
\<close>

type_synonym error = string

record Message =
  Role :: string
  Content :: string
  Thinking :: string

record ChatRequest =
  Model :: string
  Messages :: "Message list"
  Think :: string

record ChatResponse =
  Message :: Message
  DoneReason :: string
  Done :: bool

record GenerateRequest =
  GenModel :: string
  Prompt :: string
  System :: string
  GenThink :: string

record GenerateResponse =
  Response :: string
  GenThinking :: string
  GenDone :: bool

text \<open>
  A context is either \<open>context.Background()\<close> or the result of \<open>context.WithTimeout\<close>:
  a scope with an identity (each call of \<open>WithTimeout\<close> makes a new one) and a timeout
  in seconds.
\<close>

datatype ctx = Background | Timeout nat nat


section \<open>The model server and the effects of the program\<close>

text \<open>
  The model server is outside the program.  Each method of \<open>api.Client\<close> the program
  calls is a field of \<open>client\<close>: a function of the context and the request.  A
  streaming method yields the fragments it hands to the callback, in order, and then the
  error it returns (\<open>None\<close> for \<open>nil\<close>); no callback of the program returns an error, so
  a stream is never cut short by the program.  Since every completion call carries a
  context of its own, the answer may differ from call to call.
\<close>

typedecl float32

record client =
  Heartbeat :: "ctx \<Rightarrow> error option"
  Version :: "ctx \<Rightarrow> error + string"
  ListModels :: "ctx \<Rightarrow> error + string list"
  Pull :: "ctx \<Rightarrow> string \<Rightarrow> string list \<times> error option"
  Embed :: "ctx \<Rightarrow> string \<Rightarrow> string \<Rightarrow> error + float32 list list"
  Show :: "ctx \<Rightarrow> string \<Rightarrow> error + string list"
  Chat :: "ctx \<Rightarrow> ChatRequest \<Rightarrow> ChatResponse list \<times> error option"
  Generate :: "ctx \<Rightarrow> GenerateRequest \<Rightarrow> GenerateResponse list \<times> error option"

datatype request =
    HeartbeatCall ctx
  | VersionCall ctx
  | ListCall ctx
  | PullCall ctx string
  | EmbedCall ctx string string
  | ShowCall ctx string
  | ChatCall ctx ChatRequest
  | GenerateCall ctx GenerateRequest

text \<open>
  What the program does to its surroundings: the bytes written to standard output and
  to standard error by the chat loop, the calls made to the server (in order, each with
  the context it was given), the scopes made by \<open>context.WithTimeout\<close> whose cancel
  function has not run yet (\<open>held\<close>), and the cancel functions registered with
  \<open>defer\<close>, which run when \<open>main\<close> returns.  \<open>nextScope\<close> numbers the scopes.  Expiry of
  a timeout is a matter of real time and is not modelled: a scope counts as held until
  its cancel function is called.
\<close>

record world =
  stdout :: string
  stderr :: string
  requests :: "request list"
  nextScope :: nat
  held :: "nat list"
  deferred :: "nat list"

text \<open>The history-keeping variant has the conversation history as a further variable.\<close>

record chat_state = world +
  messages :: "Message list"

definition Print :: "string \<Rightarrow> 'a world_scheme \<Rightarrow> 'a world_scheme" where
  "Print s w = w\<lparr>stdout := stdout w @ s\<rparr>"

definition Println :: "string \<Rightarrow> 'a world_scheme \<Rightarrow> 'a world_scheme" where
  "Println s w = Print (s @ [LF]) w"

definition WithTimeout :: "nat \<Rightarrow> 'a world_scheme \<Rightarrow> ctx \<times> 'a world_scheme" where
  "WithTimeout secs w =
     (Timeout (nextScope w) secs,
      w\<lparr>nextScope := Suc (nextScope w), held := nextScope w # held w\<rparr>)"

definition cancel :: "ctx \<Rightarrow> 'a world_scheme \<Rightarrow> 'a world_scheme" where
  "cancel c w = (case c of Background \<Rightarrow> w | Timeout i secs \<Rightarrow> w\<lparr>held := removeAll i (held w)\<rparr>)"

definition defer_cancel :: "ctx \<Rightarrow> 'a world_scheme \<Rightarrow> 'a world_scheme" where
  "defer_cancel c w = (case c of Background \<Rightarrow> w | Timeout i secs \<Rightarrow> w\<lparr>deferred := i # deferred w\<rparr>)"

definition call :: "request \<Rightarrow> 'a world_scheme \<Rightarrow> 'a world_scheme" where
  "call r w = w\<lparr>requests := requests w @ [r]\<rparr>"

section \<open>The streaming callbacks\<close>

text \<open>
  Both callbacks are closures over two variables of the loop body, \<open>fullResponse\<close> and
  \<open>thinkingDone\<close>, and write to standard output; \<open>printed\<close> collects what one call has
  written.
\<close>

record closure =
  fullResponse :: string
  thinkingDone :: bool
  printed :: string

definition closure0 :: closure where
  "closure0 = \<lparr>fullResponse = [], thinkingDone = False, printed = []\<rparr>"

text \<open>
  The callback of the history-keeping variant (part_000, lines 149-165).  Its two
  conditionals on the reasoning text have empty bodies, so only the third acts.
\<close>

definition chatCallback :: "closure \<Rightarrow> ChatResponse \<Rightarrow> closure" where
  "chatCallback s resp =
     (if Content (Message resp) \<noteq> []
      then s\<lparr>printed := printed s @ Blue @ Content (Message resp) @ Reset,
             fullResponse := fullResponse s @ Content (Message resp)\<rparr>
      else s)"

text \<open>The callback of the single-prompt variant (main.go, lines 158-187).\<close>

definition maxLen :: nat where "maxLen = 100"

definition thinkingLine :: "string \<Rightarrow> string" where
  "thinkingLine currentThinking =
     [CR] @ Yellow @ brain @ '' Thinking...'' @ Reset @ '' '' @ currentThinking @ ESC # ''[K''"

definition thoughtComplete :: string where
  "thoughtComplete =
     [CR] @ Green @ check_mark @ '' Thought process complete.'' @ Reset @ ESC # ''[K'' @ [LF, LF]"

definition generateCallback :: "closure \<Rightarrow> GenerateResponse \<Rightarrow> closure" where
  "generateCallback s g =
     (let s1 = (if GenThinking g \<noteq> [] \<and> \<not> thinkingDone s
                then let currentThinking =
                           (if length (GenThinking g) > maxLen
                            then take maxLen (GenThinking g) @ ''...''
                            else GenThinking g)
                     in s\<lparr>printed := printed s @ thinkingLine currentThinking\<rparr>
                else s);
          s2 = (if Response g \<noteq> [] \<and> \<not> thinkingDone s1
                then s1\<lparr>thinkingDone := True, printed := printed s1 @ thoughtComplete\<rparr>
                else s1)
      in (if Response g \<noteq> []
          then s2\<lparr>printed := printed s2 @ Blue @ Response g @ Reset,
                  fullResponse := fullResponse s2 @ Response g\<rparr>
          else s2))"


section \<open>Start-up\<close>

text \<open>
  \<open>os.ReadFile\<close> is a parameter: the file system as a function from a file name to the
  bytes of the file or an error.  \<open>loadSystemMessage\<close> is lines 25-31 of both files; it
  returns the pair of a string and an optional error, as the Go function does.
\<close>

type_synonym filesystem = "string \<Rightarrow> error + string"

definition loadSystemMessage :: "strings_unicode \<Rightarrow> filesystem \<Rightarrow> string \<Rightarrow> string \<times> error option" where
  "loadSystemMessage U ReadFile filename =
     (case ReadFile filename of
        Inl err \<Rightarrow> ([], Some err)
      | Inr data \<Rightarrow> (TrimSpace U data, None))"

text \<open>Lines 47-51 of \<open>main\<close>: the system message, with its fallback.\<close>

definition fallback :: string where
  "fallback = ''You are a helpful assistant.''"

definition systemMessage :: "strings_unicode \<Rightarrow> filesystem \<Rightarrow> string" where
  "systemMessage U ReadFile =
     (let (systemMsg, err) = loadSystemMessage U ReadFile ''system.txt''
      in if err \<noteq> None then fallback else systemMsg)"

text \<open>
  A run of the start-up ends the process with an exit code (\<open>log.Fatalln\<close> and
  \<open>os.Exit(1)\<close>), panics (the index \<open>Embeddings[0]\<close> of an empty result), or reaches
  the chat loop.  The status lines the start-up prints are left out: of the start-up
  the model keeps the system message, the calls to the server with their contexts, the
  scopes and the ways it can end.
\<close>

datatype 'a outcome = Exit nat | Panic | Ready 'a

definition NewOllamaClient :: "error + client \<Rightarrow> client outcome" where
  "NewOllamaClient ClientFromEnvironment =
     (case ClientFromEnvironment of Inl err \<Rightarrow> Exit 1 | Inr c \<Rightarrow> Ready c)"

definition defaultModel :: string where "defaultModel = ''gpt-oss:20b''"
definition embeddingModel :: string where "embeddingModel = ''nomic-embed-text''"
definition embedInput :: string where "embedInput = ''Mary had a little lamb''"

definition world0 :: world where
  "world0 = \<lparr>stdout = [], stderr = [], requests = [], nextScope = 0, held = [], deferred = []\<rparr>"

text \<open>
  main.go, lines 42-125.  The result is the client, the system message and the world
  at the first iteration of the loop.
\<close>

definition gen_startup ::
  "strings_unicode \<Rightarrow> filesystem \<Rightarrow> error + client \<Rightarrow> (client \<times> string \<times> world) outcome" where
  "gen_startup U ReadFile ClientFromEnvironment =
     (let (ctx, w0) = WithTimeout 5 world0;
          w1 = defer_cancel ctx w0
      in case NewOllamaClient ClientFromEnvironment of
           Exit n \<Rightarrow> Exit n
         | Panic \<Rightarrow> Panic
         | Ready c \<Rightarrow>
      (let systemMsg = systemMessage U ReadFile;
           w2 = call (HeartbeatCall ctx) w1
       in case Heartbeat c ctx of
            Some err \<Rightarrow> Exit 1
          | None \<Rightarrow>
      (let w3 = call (VersionCall ctx) w2
       in case Version c ctx of
            Inl err \<Rightarrow> Exit 1
          | Inr clientVersion \<Rightarrow>
      (let w4 = call (ListCall ctx) w3
       in case ListModels c ctx of
            Inl err \<Rightarrow> Exit 1
          | Inr listRes \<Rightarrow>
      (let w5 = call (PullCall Background embeddingModel) w4
       in case Pull c Background embeddingModel of
            (progress, Some err) \<Rightarrow> Exit 1
          | (progress, None) \<Rightarrow>
      (let w6 = call (EmbedCall ctx embeddingModel embedInput) w5
       in case Embed c ctx embeddingModel embedInput of
            Inl err \<Rightarrow> Exit 1
          | Inr [] \<Rightarrow> Panic
          | Inr (e0 # es) \<Rightarrow>
      (let w7 = call (ShowCall ctx defaultModel) w6
       in case Show c ctx defaultModel of
            Inl err \<Rightarrow> Exit 1
          | Inr showRes \<Rightarrow> Ready (c, systemMsg, w7))))))))"

text \<open>
  part_000, lines 42-111: no pull and no embedding; the history starts with the system
  turn.
\<close>

definition chat_startup ::
  "strings_unicode \<Rightarrow> filesystem \<Rightarrow> error + client \<Rightarrow> (client \<times> chat_state) outcome" where
  "chat_startup U ReadFile ClientFromEnvironment =
     (let (ctx, w0) = WithTimeout 5 world0;
          w1 = defer_cancel ctx w0
      in case NewOllamaClient ClientFromEnvironment of
           Exit n \<Rightarrow> Exit n
         | Panic \<Rightarrow> Panic
         | Ready c \<Rightarrow>
      (let systemMsg = systemMessage U ReadFile;
           w2 = call (HeartbeatCall ctx) w1
       in case Heartbeat c ctx of
            Some err \<Rightarrow> Exit 1
          | None \<Rightarrow>
      (let w3 = call (VersionCall ctx) w2
       in case Version c ctx of
            Inl err \<Rightarrow> Exit 1
          | Inr clientVersion \<Rightarrow>
      (let w4 = call (ListCall ctx) w3
       in case ListModels c ctx of
            Inl err \<Rightarrow> Exit 1
          | Inr listRes \<Rightarrow>
      (let w5 = call (ShowCall ctx defaultModel) w4
       in case Show c ctx defaultModel of
            Inl err \<Rightarrow> Exit 1
          | Inr showRes \<Rightarrow>
              Ready (c, \<lparr>stdout = stdout w5, stderr = stderr w5, requests = requests w5,
                         nextScope = nextScope w5, held = held w5, deferred = deferred w5,
                         messages = [\<lparr>Role = ''system'', Content = systemMsg,
                                      Thinking = []\<rparr>]\<rparr>))))))"

section \<open>The chat loop\<close>

text \<open>
  One iteration of \<open>for { ... }\<close> takes the result of \<open>reader.ReadString\<close> (the line
  with its newline, or an error) and ends in \<open>continue\<close> or the end of the body
  (\<open>Next\<close>) or in \<open>break\<close>.
\<close>

datatype flow = Next | Break

definition prompt :: string where
  "prompt = [LF] @ Green @ memo @ '' You: '' @ Reset"

definition goodbye :: string where
  "goodbye = Blue @ wave @ '' Goodbye! Stay safe.'' @ Reset"

definition errorReading :: "error \<Rightarrow> string" where
  "errorReading err = Red @ cross_mark @ '' Error reading input:'' @ Reset @ '' '' @ err"

definition generationFailed :: "error \<Rightarrow> string" where
  "generationFailed err =
     [LF] @ Red @ cross_mark @ '' Generation failed:'' @ Reset @ '' '' @ err @ Reset @ [LF]"

text \<open>The history-keeping variant: part_000, lines 113-181.\<close>

definition chat_iteration ::
  "strings_unicode \<Rightarrow> client \<Rightarrow> error + string \<Rightarrow> chat_state \<Rightarrow> flow \<times> chat_state" where
  "chat_iteration U c rd st0 =
     (let st = Print prompt st0
      in case rd of
           Inl err \<Rightarrow> (Next, st)
         | Inr line \<Rightarrow>
             (let text = TrimSpace U line
              in if text = [] then (Next, st)
                 else if ToLower U text = ''exit'' \<or> text = ''quit''
                 then (Break, Println goodbye st)
                 else
                   (let st1 = st\<lparr>messages := messages st @
                                 [\<lparr>Role = ''user'', Content = text, Thinking = []\<rparr>]\<rparr>;
                        (longerCtx, st2) = WithTimeout 30 st1;
                        chatReq = \<lparr>Model = defaultModel, Messages = messages st2, Think = ''low''\<rparr>;
                        (frags, err) = Chat c longerCtx chatReq;
                        cl = foldl chatCallback closure0 frags;
                        st3 = Print (printed cl) (call (ChatCall longerCtx chatReq) st2);
                        st4 = st3\<lparr>messages := messages st3 @
                                 [\<lparr>Role = ''assistant'', Content = fullResponse cl, Thinking = []\<rparr>]\<rparr>;
                        st5 = (case err of
                                 Some e \<Rightarrow> Print (generationFailed e) st4
                               | None \<Rightarrow> st4);
                        st6 = cancel longerCtx (Println [] st5)
                    in (Next, st6))))"

text \<open>The single-prompt variant: main.go, lines 127-196.\<close>

definition gen_iteration ::
  "strings_unicode \<Rightarrow> client \<Rightarrow> string \<Rightarrow> error + string \<Rightarrow> world \<Rightarrow> flow \<times> world" where
  "gen_iteration U c systemMsg rd w0 =
     (let w = Print prompt w0
      in case rd of
           Inl err \<Rightarrow> (Next, Println (errorReading err) w)
         | Inr line \<Rightarrow>
             (let text = TrimSpace U line
              in if text = [] then (Next, w)
                 else if ToLower U text = ''exit'' \<or> text = ''quit''
                 then (Break, Println goodbye w)
                 else
                   (let (longerCtx, w1) = WithTimeout 30 w;
                        w2 = defer_cancel longerCtx w1;
                        generateReq = \<lparr>GenModel = defaultModel, Prompt = text,
                                        System = systemMsg, GenThink = ''low''\<rparr>;
                        (frags, err) = Generate c longerCtx generateReq;
                        cl = foldl generateCallback closure0 frags;
                        w3 = Print (printed cl) (call (GenerateCall longerCtx generateReq) w2)
                    in case err of
                         Some e \<Rightarrow> (Next, Print (generationFailed e) w3)
                       | None \<Rightarrow> (Next, Println [] w3))))"

text \<open>
  The loop runs as long as lines arrive.  Its argument is the list of the results of the
  successive reads; after \<open>break\<close> no further read takes place.  The result \<open>Next\<close>
  means that the loop is at the head of its next iteration.
\<close>

fun chat_loop ::
  "strings_unicode \<Rightarrow> client \<Rightarrow> (error + string) list \<Rightarrow> chat_state \<Rightarrow> flow \<times> chat_state" where
  "chat_loop U c [] st = (Next, st)"
| "chat_loop U c (rd # rds) st =
     (case chat_iteration U c rd st of
        (Break, st') \<Rightarrow> (Break, st')
      | (Next, st') \<Rightarrow> chat_loop U c rds st')"

fun gen_loop ::
  "strings_unicode \<Rightarrow> client \<Rightarrow> string \<Rightarrow> (error + string) list \<Rightarrow> world \<Rightarrow> flow \<times> world" where
  "gen_loop U c systemMsg [] w = (Next, w)"
| "gen_loop U c systemMsg (rd # rds) w =
     (case gen_iteration U c systemMsg rd w of
        (Break, w') \<Rightarrow> (Break, w')
      | (Next, w') \<Rightarrow> gen_loop U c systemMsg rds w')"


section \<open>Auxiliary definitions for stating the properties\<close>

text \<open>
  What the callbacks write for the answer text of one fragment, and the context a
  logged call was given.
\<close>

definition showContent :: "ChatResponse \<Rightarrow> string" where
  "showContent resp =
     (if Content (Message resp) = [] then [] else Blue @ Content (Message resp) @ Reset)"

definition showResponse :: "GenerateResponse \<Rightarrow> string" where
  "showResponse g = (if Response g = [] then [] else Blue @ Response g @ Reset)"

fun scope :: "request \<Rightarrow> ctx" where
  "scope (HeartbeatCall x) = x"
| "scope (VersionCall x) = x"
| "scope (ListCall x) = x"
| "scope (PullCall x m) = x"
| "scope (EmbedCall x m i) = x"
| "scope (ShowCall x m) = x"
| "scope (ChatCall x r) = x"
| "scope (GenerateCall x r) = x"

text \<open>
  A server to run the model on: it accepts every call of the start-up and answers every
  completion call with one fixed stream and one fixed error.  \<open>no_file\<close> is a working
  directory without \<open>system.txt\<close>, \<open>with_file data\<close> one where the file holds
  \<open>data\<close>; \<open>chat_ready\<close> and \<open>gen_ready\<close> are the states in which
  the two variants then enter their loop.
\<close>

definition answer :: "string \<Rightarrow> ChatResponse" where
  "answer t = \<lparr>Message = \<lparr>Role = ''assistant'', Content = t, Thinking = []\<rparr>,
               DoneReason = [], Done = False\<rparr>"

definition token :: "string \<Rightarrow> string \<Rightarrow> GenerateResponse" where
  "token thinking response = \<lparr>Response = response, GenThinking = thinking, GenDone = False\<rparr>"

definition mock ::
  "ChatResponse list \<times> error option \<Rightarrow> GenerateResponse list \<times> error option \<Rightarrow> client" where
  "mock chat gen =
     \<lparr>Heartbeat = (\<lambda>x. None), Version = (\<lambda>x. Inr ''0.12.6''),
      ListModels = (\<lambda>x. Inr [defaultModel]), Pull = (\<lambda>x m. ([''success''], None)),
      Embed = (\<lambda>x m i. Inr ([] # [])), Show = (\<lambda>x m. Inr [''completion'']),
      Chat = (\<lambda>x r. chat), Generate = (\<lambda>x r. gen)\<rparr>"

definition no_file :: filesystem where
  "no_file filename = Inl ''no such file or directory''"

definition with_file :: "string \<Rightarrow> filesystem" where
  "with_file data filename =
     (if filename = ''system.txt'' then Inr data else Inl ''no such file or directory'')"

definition chat_ready :: chat_state where
  "chat_ready =
     \<lparr>stdout = [], stderr = [],
      requests = [HeartbeatCall (Timeout 0 5), VersionCall (Timeout 0 5),
                  ListCall (Timeout 0 5), ShowCall (Timeout 0 5) defaultModel],
      nextScope = 1, held = [0], deferred = [0],
      messages = [\<lparr>Role = ''system'', Content = fallback, Thinking = []\<rparr>]\<rparr>"

definition gen_ready :: world where
  "gen_ready =
     \<lparr>stdout = [], stderr = [],
      requests = [HeartbeatCall (Timeout 0 5), VersionCall (Timeout 0 5),
                  ListCall (Timeout 0 5), PullCall Background embeddingModel,
                  EmbedCall (Timeout 0 5) embeddingModel embedInput,
                  ShowCall (Timeout 0 5) defaultModel],
      nextScope = 1, held = [0], deferred = [0]\<rparr>"

section \<open>Facts about the library functions\<close>

lemma ToLower_Nil: "ToLower U [] = []"
  by (simp add: ToLower_def isASCII_def)

lemma ToLower_ascii: "isASCII text \<Longrightarrow> ToLower U text = map lowerByte text"
  by (simp add: ToLower_def)

lemma exit_not_empty: "ToLower U text = ''exit'' \<or> text = ''quit'' \<Longrightarrow> text \<noteq> []"
  by (auto simp: ToLower_Nil)

lemma asciiSpace_below: "asciiSpace c \<Longrightarrow> of_char c < RuneSelf"
  by (auto simp: asciiSpace_def RuneSelf_def)

lemma TrimSpace_blank: "list_all asciiSpace line \<Longrightarrow> TrimSpace U line = []"
  by (induction line) (auto dest: asciiSpace_below)

lemma trimStop_ascii:
  "isASCII r \<Longrightarrow>
     \<exists>suf. rev r = trimStop U r @ suf \<and> list_all asciiSpace suf \<and>
           (trimStop U r = [] \<or> \<not> asciiSpace (last (trimStop U r)))"
proof (induction r)
  case Nil
  then show ?case by simp
next
  case (Cons c r)
  then have c: "\<not> RuneSelf \<le> of_char c" and r: "isASCII r" by (auto simp: isASCII_def)
  show ?case
  proof (cases "asciiSpace c")
    case True
    from Cons.IH [OF r] obtain suf where
      "rev r = trimStop U r @ suf" "list_all asciiSpace suf"
      "trimStop U r = [] \<or> \<not> asciiSpace (last (trimStop U r))" by blast
    with True c show ?thesis
      by (intro exI [of _ "suf @ [c]"]) simp
  next
    case False
    with c show ?thesis by (intro exI [of _ "[]"]) simp
  qed
qed

lemma trimStop_keeps_head:
  "isASCII r \<Longrightarrow> r \<noteq> [] \<Longrightarrow> \<not> asciiSpace (last r) \<Longrightarrow>
     trimStop U r \<noteq> [] \<and> hd (trimStop U r) = last r"
proof (induction r)
  case Nil
  then show ?case by simp
next
  case (Cons c r)
  then have c: "\<not> RuneSelf \<le> of_char c" and r: "isASCII r" by (auto simp: isASCII_def)
  show ?case
  proof (cases "asciiSpace c")
    case True
    with Cons.prems have "r \<noteq> []" by auto
    with Cons True c r show ?thesis by auto
  next
    case False
    with c show ?thesis by (simp add: hd_append hd_rev)
  qed
qed

text \<open>
  On ASCII input \<open>TrimSpace\<close> removes a run of white space at the front and one at the
  back, and nothing else.
\<close>

lemma TrimSpace_ascii:
  "isASCII s \<Longrightarrow>
     \<exists>pre suf. s = pre @ TrimSpace U s @ suf \<and> list_all asciiSpace pre \<and> list_all asciiSpace suf \<and>
        (TrimSpace U s = [] \<or>
         (\<not> asciiSpace (hd (TrimSpace U s)) \<and> \<not> asciiSpace (last (TrimSpace U s))))"
proof (induction s)
  case Nil
  then show ?case by simp
next
  case (Cons c s)
  then have c: "\<not> RuneSelf \<le> of_char c" and s: "isASCII s" by (auto simp: isASCII_def)
  show ?case
  proof (cases "asciiSpace c")
    case True
    from Cons.IH [OF s] obtain pre suf where
      "s = pre @ TrimSpace U s @ suf" "list_all asciiSpace pre" "list_all asciiSpace suf"
      "TrimSpace U s = [] \<or>
         (\<not> asciiSpace (hd (TrimSpace U s)) \<and> \<not> asciiSpace (last (TrimSpace U s)))" by blast
    with True c show ?thesis
      by (intro exI [of _ "c # pre"] exI [of _ suf]) simp
  next
    case False
    define r where "r = rev (c # s)"
    have asc: "isASCII r" using Cons.prems by (simp add: isASCII_def r_def)
    have rr: "rev r = c # s" "r \<noteq> []" "last r = c" by (simp_all add: r_def)
    from trimStop_ascii [OF asc, of U] rr obtain suf where suf:
      "c # s = trimStop U r @ suf" "list_all asciiSpace suf"
      "trimStop U r = [] \<or> \<not> asciiSpace (last (trimStop U r))"
      by auto
    from trimStop_keeps_head [OF asc, of U] False rr
    have hd: "trimStop U r \<noteq> []" "hd (trimStop U r) = c"
      by simp_all
    have eq: "TrimSpace U (c # s) = trimStop U r" using c False by (simp add: r_def)
    show ?thesis
      unfolding eq using suf hd False
      by (intro exI [of _ "[]"] exI [of _ suf]) auto
  qed
qed

lemma TrimSpace_fallback: "TrimSpace U fallback = fallback"
  by (simp add: fallback_def RuneSelf_def asciiSpace_def)

lemma concat_filter_nonempty: "concat (filter (\<lambda>t. t \<noteq> []) xs) = concat xs"
  by (induction xs) simp_all

section \<open>Facts about the callbacks\<close>

lemma fullResponse_chat:
  "fullResponse (foldl chatCallback s frags) =
     fullResponse s @ concat (map (Content \<circ> Message) frags)"
  by (induction frags arbitrary: s) (simp_all add: chatCallback_def)

lemma printed_chat:
  "printed (foldl chatCallback s frags) = printed s @ concat (map showContent frags)"
  by (induction frags arbitrary: s) (simp_all add: chatCallback_def showContent_def)

lemma fullResponse_generate:
  "fullResponse (foldl generateCallback s frags) = fullResponse s @ concat (map Response frags)"
  by (induction frags arbitrary: s) (simp_all add: generateCallback_def Let_def)

lemma generateCallback_done:
  "thinkingDone s \<Longrightarrow>
     generateCallback s g =
       (if Response g = [] then s
        else s\<lparr>printed := printed s @ Blue @ Response g @ Reset,
               fullResponse := fullResponse s @ Response g\<rparr>)"
  by (simp add: generateCallback_def)

lemma generateCallback_after_done:
  "thinkingDone s \<Longrightarrow>
     thinkingDone (foldl generateCallback s later) \<and>
     printed (foldl generateCallback s later) = printed s @ concat (map showResponse later)"
  by (induction later arbitrary: s) (simp_all add: generateCallback_done showResponse_def)

lemma generateCallback_finalizes: "Response g \<noteq> [] \<Longrightarrow> thinkingDone (generateCallback s g)"
  by (simp add: generateCallback_def Let_def)

section \<open>Facts about the start-up\<close>

text \<open>
  A start-up that reaches the loop has made its calls in one fixed order, each with the
  context the source passes to it, and depends on the file system only through the
  system message.
\<close>

lemma systemMessage_cases:
  "systemMessage U ReadFile =
     (case ReadFile ''system.txt'' of Inl err \<Rightarrow> fallback | Inr data \<Rightarrow> TrimSpace U data)"
  by (simp add: systemMessage_def loadSystemMessage_def split: sum.splits)

lemma chat_startup_systemMessage:
  "systemMessage U ReadFile = systemMessage U' ReadFile' \<Longrightarrow>
     chat_startup U ReadFile env = chat_startup U' ReadFile' env"
  unfolding chat_startup_def by (erule ssubst) (rule refl)

lemma gen_startup_systemMessage:
  "systemMessage U ReadFile = systemMessage U' ReadFile' \<Longrightarrow>
     gen_startup U ReadFile env = gen_startup U' ReadFile' env"
  unfolding gen_startup_def by (erule ssubst) (rule refl)

lemma chat_startup_Ready:
  assumes "chat_startup U ReadFile env = Ready (c, st)"
  shows "env = Inr c \<and>
         st = \<lparr>stdout = [], stderr = [],
               requests = [HeartbeatCall (Timeout 0 5), VersionCall (Timeout 0 5),
                           ListCall (Timeout 0 5), ShowCall (Timeout 0 5) defaultModel],
               nextScope = 1, held = [0], deferred = [0],
               messages = [\<lparr>Role = ''system'', Content = systemMessage U ReadFile,
                            Thinking = []\<rparr>]\<rparr>"
  using assms
  by (auto simp: chat_startup_def NewOllamaClient_def WithTimeout_def defer_cancel_def call_def
        world0_def Let_def
      split: sum.splits option.splits list.splits prod.splits)

lemma gen_startup_Ready:
  assumes "gen_startup U ReadFile env = Ready (c, systemMsg, w)"
  shows "env = Inr c \<and> systemMsg = systemMessage U ReadFile \<and>
         w = \<lparr>stdout = [], stderr = [],
              requests = [HeartbeatCall (Timeout 0 5), VersionCall (Timeout 0 5),
                          ListCall (Timeout 0 5), PullCall Background embeddingModel,
                          EmbedCall (Timeout 0 5) embeddingModel embedInput,
                          ShowCall (Timeout 0 5) defaultModel],
              nextScope = 1, held = [0], deferred = [0]\<rparr>"
  using assms
  by (auto simp: gen_startup_def NewOllamaClient_def WithTimeout_def defer_cancel_def call_def
        world0_def Let_def
      split: sum.splits option.splits list.splits prod.splits)

lemma chat_startup_mock:
  "chat_startup U no_file (Inr (mock a b)) = Ready (mock a b, chat_ready)"
  by (simp add: chat_startup_def NewOllamaClient_def WithTimeout_def defer_cancel_def call_def
        world0_def Let_def mock_def systemMessage_def loadSystemMessage_def no_file_def
        chat_ready_def)

lemma gen_startup_mock:
  "gen_startup U no_file (Inr (mock a b)) = Ready (mock a b, fallback, gen_ready)"
  by (simp add: gen_startup_def NewOllamaClient_def WithTimeout_def defer_cancel_def call_def
        world0_def Let_def mock_def systemMessage_def loadSystemMessage_def no_file_def
        gen_ready_def)

section \<open>One iteration of either loop\<close>

text \<open>
  The whole effect of an iteration that sends a prompt (what is printed, the call that
  is logged, the scope that is made, and in the history-keeping variant the two turns
  that are appended), and of one that reads an exit token.
\<close>

lemma chat_iteration_turn:
  assumes "TrimSpace U line = text" and "text \<noteq> []"
    and "\<not> (ToLower U text = ''exit'' \<or> text = ''quit'')"
    and "Chat c (Timeout (nextScope st) 30)
           \<lparr>Model = defaultModel,
            Messages = messages st @ [\<lparr>Role = ''user'', Content = text, Thinking = []\<rparr>],
            Think = ''low''\<rparr> = (frags, err)"
  shows "chat_iteration U c (Inr line) st =
     (Next, st\<lparr>stdout := stdout st @ prompt @ concat (map showContent frags) @
                   (case err of Some e \<Rightarrow> generationFailed e | None \<Rightarrow> []) @ [LF],
               requests := requests st @
                   [ChatCall (Timeout (nextScope st) 30)
                      \<lparr>Model = defaultModel,
                       Messages = messages st @
                         [\<lparr>Role = ''user'', Content = text, Thinking = []\<rparr>],
                       Think = ''low''\<rparr>],
               nextScope := Suc (nextScope st),
               held := removeAll (nextScope st) (held st),
               messages := messages st @
                   [\<lparr>Role = ''user'', Content = text, Thinking = []\<rparr>,
                    \<lparr>Role = ''assistant'', Content = concat (map (Content \<circ> Message) frags),
                     Thinking = []\<rparr>]\<rparr>)"
  using assms
  by (cases err)
     (simp_all add: chat_iteration_def Let_def Print_def Println_def WithTimeout_def call_def
        cancel_def fullResponse_chat printed_chat closure0_def)

lemma gen_iteration_turn:
  assumes "TrimSpace U line = text" and "text \<noteq> []"
    and "\<not> (ToLower U text = ''exit'' \<or> text = ''quit'')"
    and "Generate c (Timeout (nextScope w) 30)
           \<lparr>GenModel = defaultModel, Prompt = text, System = systemMsg, GenThink = ''low''\<rparr>
         = (frags, err)"
  shows "gen_iteration U c systemMsg (Inr line) w =
     (Next, w\<lparr>stdout := stdout w @ prompt @ printed (foldl generateCallback closure0 frags) @
                   (case err of Some e \<Rightarrow> generationFailed e | None \<Rightarrow> [LF]),
              requests := requests w @
                   [GenerateCall (Timeout (nextScope w) 30)
                      \<lparr>GenModel = defaultModel, Prompt = text, System = systemMsg,
                       GenThink = ''low''\<rparr>],
              nextScope := Suc (nextScope w),
              held := nextScope w # held w,
              deferred := nextScope w # deferred w\<rparr>)"
  using assms
  by (cases err)
     (simp_all add: gen_iteration_def Let_def Print_def Println_def WithTimeout_def call_def
        defer_cancel_def)

lemma chat_iteration_exit:
  assumes "ToLower U (TrimSpace U line) = ''exit'' \<or> TrimSpace U line = ''quit''"
  shows "chat_iteration U c (Inr line) st = (Break, st\<lparr>stdout := stdout st @ prompt @ goodbye @ [LF]\<rparr>)"
  using assms exit_not_empty [OF assms]
  by (simp add: chat_iteration_def Let_def Print_def Println_def)

lemma gen_iteration_exit:
  assumes "ToLower U (TrimSpace U line) = ''exit'' \<or> TrimSpace U line = ''quit''"
  shows "gen_iteration U c m (Inr line) w = (Break, w\<lparr>stdout := stdout w @ prompt @ goodbye @ [LF]\<rparr>)"
  using assms exit_not_empty [OF assms]
  by (simp add: gen_iteration_def Let_def Print_def Println_def)

section \<open>Calls and scopes along the loops\<close>

text \<open>
  An iteration of the single-prompt loop either leaves the log of calls and the scopes
  as they are, or logs one completion call under a new scope of 30 seconds, which it
  leaves held and registers with \<open>defer\<close>.
\<close>

lemma gen_iteration_cases:
  "gen_iteration U c m rd w = (fl, w') \<Longrightarrow>
     (requests w' = requests w \<and> nextScope w' = nextScope w \<and> held w' = held w \<and>
      deferred w' = deferred w) \<or>
     (\<exists>req. requests w' = requests w @ [GenerateCall (Timeout (nextScope w) 30) req] \<and>
        nextScope w' = Suc (nextScope w) \<and> held w' = nextScope w # held w \<and>
        deferred w' = nextScope w # deferred w \<and> fl = Next)"
  by (auto simp: gen_iteration_def Let_def Print_def Println_def WithTimeout_def call_def
        defer_cancel_def split: sum.splits if_splits prod.splits option.splits)

lemma gen_loop_requests:
  "gen_loop U c m reads w = (fl, w') \<Longrightarrow>
     nextScope w \<le> nextScope w' \<and>
     (\<exists>comps. requests w' = requests w @ comps \<and>
        (\<forall>r \<in> set comps. \<exists>x req. r = GenerateCall x req) \<and>
        map scope comps = map (\<lambda>i. Timeout i 30) [nextScope w ..< nextScope w'])"
proof (induction reads arbitrary: w)
  case Nil
  then show ?case by simp
next
  case (Cons rd reads)
  obtain fl1 w1 where it: "gen_iteration U c m rd w = (fl1, w1)"
    by (cases "gen_iteration U c m rd w")
  show ?case
  proof (cases fl1)
    case Break
    with it Cons.prems have "w' = w1" by simp
    with gen_iteration_cases [OF it] Break show ?thesis by auto
  next
    case Next
    with it Cons.prems have loop: "gen_loop U c m reads w1 = (fl, w')" by simp
    from Cons.IH [OF loop] obtain comps where comps:
      "nextScope w1 \<le> nextScope w'" "requests w' = requests w1 @ comps"
      "\<forall>r \<in> set comps. \<exists>x req. r = GenerateCall x req"
      "map scope comps = map (\<lambda>i. Timeout i 30) [nextScope w1 ..< nextScope w']"
      by blast
    from gen_iteration_cases [OF it] show ?thesis
    proof (elim disjE exE conjE)
      assume "requests w1 = requests w" "nextScope w1 = nextScope w"
      with comps show ?thesis by auto
    next
      fix req
      assume a: "requests w1 = requests w @ [GenerateCall (Timeout (nextScope w) 30) req]"
        "nextScope w1 = Suc (nextScope w)"
      with comps have le: "nextScope w < nextScope w'" by simp
      have "requests w' = requests w @ (GenerateCall (Timeout (nextScope w) 30) req # comps)"
        using a comps by simp
      moreover have "map scope (GenerateCall (Timeout (nextScope w) 30) req # comps) =
          map (\<lambda>i. Timeout i 30) [nextScope w ..< nextScope w']"
        using a comps le by (simp add: upt_conv_Cons)
      moreover have "\<forall>r \<in> set (GenerateCall (Timeout (nextScope w) 30) req # comps).
          \<exists>x req. r = GenerateCall x req"
        using comps by simp
      ultimately show ?thesis using le by (metis less_imp_le)
    qed
  qed
qed

text \<open>
  The history-keeping loop calls \<open>cancel\<close> at the end of the iteration: as long as the
  scopes held are older than the next one, an iteration leaves \<open>held\<close> as it found it.
\<close>

lemma chat_iteration_held:
  assumes "\<forall>i \<in> set (held st). i < nextScope st"
  shows "held (snd (chat_iteration U c rd st)) = held st \<and>
         nextScope st \<le> nextScope (snd (chat_iteration U c rd st))"
proof -
  have "removeAll (nextScope st) (held st) = held st"
    using assms by (intro removeAll_id) auto
  then show ?thesis
    by (auto simp: chat_iteration_def Let_def Print_def Println_def WithTimeout_def call_def
          cancel_def split: sum.splits prod.splits option.splits)
qed

lemma chat_loop_held:
  "\<forall>i \<in> set (held st). i < nextScope st \<Longrightarrow> held (snd (chat_loop U c reads st)) = held st"
proof (induction reads arbitrary: st)
  case Nil
  then show ?case by simp
next
  case (Cons rd reads)
  obtain fl st1 where it: "chat_iteration U c rd st = (fl, st1)"
    by (cases "chat_iteration U c rd st")
  from chat_iteration_held [OF Cons.prems, of U c rd] it
  have h: "held st1 = held st" "nextScope st \<le> nextScope st1" by simp_all
  with Cons.prems have inv: "\<forall>i \<in> set (held st1). i < nextScope st1" by auto
  show ?case
  proof (cases fl)
    case Break
    with it h show ?thesis by simp
  next
    case Next
    with it Cons.IH [OF inv] h show ?thesis by simp
  qed
qed

lemma gen_two_prompts:
  "gen_loop noUnicode (mock ([], None) ([token [] ''Hi''], None)) fallback
      [Inr ''hi\<newline>'', Inr ''more\<newline>''] gen_ready =
   (Next, gen_ready
     \<lparr>stdout := prompt @ thoughtComplete @ Blue @ ''Hi'' @ Reset @ [LF] @
                 prompt @ thoughtComplete @ Blue @ ''Hi'' @ Reset @ [LF],
      requests := requests gen_ready @
        [GenerateCall (Timeout 1 30)
           \<lparr>GenModel = defaultModel, Prompt = ''hi'', System = fallback, GenThink = ''low''\<rparr>,
         GenerateCall (Timeout 2 30)
           \<lparr>GenModel = defaultModel, Prompt = ''more'', System = fallback, GenThink = ''low''\<rparr>],
      nextScope := 3, held := [2, 1, 0], deferred := [2, 1, 0]\<rparr>)"
  by (simp add: gen_iteration_def Let_def Print_def Println_def WithTimeout_def call_def
        defer_cancel_def closure0_def generateCallback_def mock_def token_def gen_ready_def
        RuneSelf_def asciiSpace_def ToLower_def isASCII_def lowerByte_def)

lemma chat_two_prompts_held:
  "held (snd (chat_loop noUnicode (mock ([answer ''Hi''], None) ([], None))
      [Inr ''hi\<newline>'', Inr ''more\<newline>''] chat_ready)) = [0]"
  using chat_loop_held [of chat_ready noUnicode "mock ([answer ''Hi''], None) ([], None)"
      "[Inr ''hi\<newline>'', Inr ''more\<newline>'']"]
  by (simp add: chat_ready_def del: chat_loop.simps)

text \<open>
  Over a run of lines that all send a prompt, the history-keeping loop does not stop and
  the history grows by a user turn and an assistant turn per line, in this order.
\<close>

lemma chat_loop_prompts:
  assumes "\<forall>rd \<in> set reads. \<exists>line. rd = Inr line \<and> TrimSpace U line \<noteq> [] \<and>
             \<not> (ToLower U (TrimSpace U line) = ''exit'' \<or> TrimSpace U line = ''quit'')"
  shows "fst (chat_loop U c reads st) = Next \<and>
         take (length (messages st)) (messages (snd (chat_loop U c reads st))) = messages st \<and>
         map Role (drop (length (messages st)) (messages (snd (chat_loop U c reads st)))) =
           concat (replicate (length reads) [''user'', ''assistant''])"
  using assms
proof (induction reads arbitrary: st)
  case Nil
  then show ?case by simp
next
  case (Cons rd reads)
  then obtain line where rd: "rd = Inr line" and ne: "TrimSpace U line \<noteq> []"
    and nx: "\<not> (ToLower U (TrimSpace U line) = ''exit'' \<or> TrimSpace U line = ''quit'')"
    by auto
  obtain frags err where ch: "Chat c (Timeout (nextScope st) 30)
       \<lparr>Model = defaultModel,
        Messages = messages st @
          [\<lparr>Role = ''user'', Content = TrimSpace U line, Thinking = []\<rparr>],
        Think = ''low''\<rparr> = (frags, err)"
    by fastforce
  note it = chat_iteration_turn [OF refl ne nx ch]
  define st1 where "st1 = snd (chat_iteration U c (Inr line) st)"
  have loop: "chat_loop U c (rd # reads) st = chat_loop U c reads st1"
    by (simp add: rd it st1_def)
  have m1: "messages st1 = messages st @
      [\<lparr>Role = ''user'', Content = TrimSpace U line, Thinking = []\<rparr>,
       \<lparr>Role = ''assistant'', Content = concat (map (Content \<circ> Message) frags),
        Thinking = []\<rparr>]"
    by (simp add: st1_def it)
  from Cons.prems have rest: "\<forall>rd \<in> set reads. \<exists>line. rd = Inr line \<and> TrimSpace U line \<noteq> [] \<and>
             \<not> (ToLower U (TrimSpace U line) = ''exit'' \<or> TrimSpace U line = ''quit'')"
    by simp
  from Cons.IH [OF rest, of st1]
  have ih: "fst (chat_loop U c reads st1) = Next"
    "take (length (messages st1)) (messages (snd (chat_loop U c reads st1))) = messages st1"
    "map Role (drop (length (messages st1)) (messages (snd (chat_loop U c reads st1)))) =
       concat (replicate (length reads) [''user'', ''assistant''])"
    by simp_all
  define rest_turns where
    "rest_turns = drop (length (messages st1)) (messages (snd (chat_loop U c reads st1)))"
  from ih(2) have ms: "messages (snd (chat_loop U c reads st1)) = messages st1 @ rest_turns"
    unfolding rest_turns_def by (metis append_take_drop_id)
  from ih(3) have roles: "map Role rest_turns =
      concat (replicate (length reads) [''user'', ''assistant''])"
    by (simp add: rest_turns_def)
  show ?case unfolding loop using ih(1) roles by (simp add: ms m1)
qed

section \<open>The claims\<close>

text \<open>
  Claim C1.  In the history-keeping variant, an iteration whose line is not empty after
  trimming and is not an exit token appends exactly two turns to the history: a user turn
  whose content is the trimmed line, and an assistant turn whose content is the text of
  the streamed fragments.  The error returned by the call (\<open>err\<close>) is arbitrary: the
  assistant turn is appended after a failed call as after a successful one, and the loop
  goes on.
\<close>

theorem history_grows_by_user_and_assistant_turn:
  assumes "TrimSpace U line \<noteq> []"
    and "\<not> (ToLower U (TrimSpace U line) = ''exit'' \<or> TrimSpace U line = ''quit'')"
    and "Chat c (Timeout (nextScope st) 30)
           \<lparr>Model = defaultModel,
            Messages = messages st @
              [\<lparr>Role = ''user'', Content = TrimSpace U line, Thinking = []\<rparr>],
            Think = ''low''\<rparr> = (frags, err)"
  shows "fst (chat_iteration U c (Inr line) st) = Next \<and>
         messages (snd (chat_iteration U c (Inr line) st)) =
           messages st @
             [\<lparr>Role = ''user'', Content = TrimSpace U line, Thinking = []\<rparr>,
              \<lparr>Role = ''assistant'', Content = concat (map (Content \<circ> Message) frags),
               Thinking = []\<rparr>]"
  using chat_iteration_turn [OF refl assms] by simp

text \<open>
  The line \<open>"  hello \n"\<close> with a call that fails before any fragment arrives: the user
  turn \<open>hello\<close> and an assistant turn with empty text are appended.
\<close>

theorem history_grows_by_user_and_assistant_turn_witness:
  "fst (chat_iteration noUnicode (mock ([], Some ''deadline exceeded'') ([], None))
          (Inr ''  hello \<newline>'') chat_ready) = Next \<and>
   messages (snd (chat_iteration noUnicode (mock ([], Some ''deadline exceeded'') ([], None))
          (Inr ''  hello \<newline>'') chat_ready)) =
     [\<lparr>Role = ''system'', Content = ''You are a helpful assistant.'', Thinking = []\<rparr>,
      \<lparr>Role = ''user'', Content = ''hello'', Thinking = []\<rparr>,
      \<lparr>Role = ''assistant'', Content = [], Thinking = []\<rparr>]"
  using history_grows_by_user_and_assistant_turn
    [of noUnicode "''  hello \<newline>''" "mock ([], Some ''deadline exceeded'') ([], None)"
        chat_ready "[]" "Some ''deadline exceeded''"]
  by (simp add: RuneSelf_def asciiSpace_def ToLower_def isASCII_def lowerByte_def mock_def
        chat_ready_def fallback_def)

text \<open>
  Claim C2.  The assistant turn appended after a streaming call holds the non-empty
  answer texts of the fragments handed to the callback, concatenated in the order of
  arrival: nothing is dropped, repeated or moved.  The accumulator of the single-prompt
  variant is built the same way.
\<close>

theorem assistant_turn_is_concatenation_of_fragments:
  assumes "TrimSpace U line \<noteq> []"
    and "\<not> (ToLower U (TrimSpace U line) = ''exit'' \<or> TrimSpace U line = ''quit'')"
    and "Chat c (Timeout (nextScope st) 30)
           \<lparr>Model = defaultModel,
            Messages = messages st @
              [\<lparr>Role = ''user'', Content = TrimSpace U line, Thinking = []\<rparr>],
            Think = ''low''\<rparr> = (frags, err)"
  shows "last (messages (snd (chat_iteration U c (Inr line) st))) =
           \<lparr>Role = ''assistant'',
            Content = concat (filter (\<lambda>t. t \<noteq> []) (map (Content \<circ> Message) frags)),
            Thinking = []\<rparr> \<and>
         fullResponse (foldl generateCallback closure0 gfrags) =
           concat (filter (\<lambda>t. t \<noteq> []) (map Response gfrags))"
  using chat_iteration_turn [OF refl assms]
  by (simp add: concat_filter_nonempty fullResponse_generate closure0_def)

text \<open>The stream of the two fragments \<open>Hi\<close> and \<open> there\<close> gives the turn \<open>Hi there\<close>.\<close>

theorem assistant_turn_is_concatenation_of_fragments_witness:
  "last (messages (snd (chat_iteration noUnicode
       (mock ([answer ''Hi'', answer '' there''], None) ([], None))
       (Inr ''hello\<newline>'') chat_ready))) =
     \<lparr>Role = ''assistant'', Content = ''Hi there'', Thinking = []\<rparr> \<and>
   fullResponse (foldl generateCallback closure0
       [token ''plan'' [], token [] ''Hi'', token [] '' there'']) = ''Hi there''"
  using assistant_turn_is_concatenation_of_fragments
    [of noUnicode "''hello\<newline>''" "mock ([answer ''Hi'', answer '' there''], None) ([], None)"
        chat_ready "[answer ''Hi'', answer '' there'']" None
        "[token ''plan'' [], token [] ''Hi'', token [] '' there'']"]
  by (simp add: RuneSelf_def asciiSpace_def ToLower_def isASCII_def lowerByte_def mock_def
        chat_ready_def answer_def token_def)

text \<open>
  Claim C3.  A line that, once trimmed, is \<open>exit\<close> in any mix of upper and lower case
  ends the loop in both variants.  The state differs from the one before only in the
  prompt and the farewell on standard output: no turn is appended to the history, no call
  is logged, and the lines that follow are not read.
\<close>

theorem exit_token_ends_loop:
  assumes "ToLower U (TrimSpace U line) = ''exit''"
  shows "chat_loop U c (Inr line # rest) st =
           (Break, st\<lparr>stdout := stdout st @ prompt @ goodbye @ [LF]\<rparr>) \<and>
         gen_loop U c systemMsg (Inr line # rest) w =
           (Break, w\<lparr>stdout := stdout w @ prompt @ goodbye @ [LF]\<rparr>)"
  using assms by (simp add: chat_iteration_exit gen_iteration_exit)

theorem exit_token_ends_loop_witness:
  "ToLower noUnicode (TrimSpace noUnicode ''  ExIt \<newline>'') = ''exit'' \<and>
   chat_loop noUnicode (mock ([answer ''Hi''], None) ([], None))
       [Inr ''  ExIt \<newline>'', Inr ''more\<newline>''] chat_ready =
     (Break, chat_ready\<lparr>stdout := prompt @ goodbye @ [LF]\<rparr>) \<and>
   gen_loop noUnicode (mock ([answer ''Hi''], None) ([], None)) fallback
       [Inr ''  ExIt \<newline>'', Inr ''more\<newline>''] gen_ready =
     (Break, gen_ready\<lparr>stdout := prompt @ goodbye @ [LF]\<rparr>)"
proof -
  have lower: "ToLower noUnicode (TrimSpace noUnicode ''  ExIt \<newline>'') = ''exit''"
    by code_simp
  from exit_token_ends_loop [OF lower,
      of "mock ([answer ''Hi''], None) ([], None)" "[Inr ''more\<newline>'']" chat_ready
         fallback gen_ready]
  show ?thesis using lower by (simp add: chat_ready_def gen_ready_def)
qed

text \<open>
  Claim C4.  A line that is empty after trimming ends the iteration at once: only the
  prompt has been printed, so the history is unchanged and no call has been made, and
  the loop goes on to the next read.
\<close>

theorem blank_line_is_ignored:
  assumes "TrimSpace U line = []"
  shows "chat_iteration U c (Inr line) st = (Next, st\<lparr>stdout := stdout st @ prompt\<rparr>) \<and>
         gen_iteration U c systemMsg (Inr line) w = (Next, w\<lparr>stdout := stdout w @ prompt\<rparr>)"
  using assms by (simp add: chat_iteration_def gen_iteration_def Let_def Print_def)

theorem blank_line_is_ignored_witness:
  "TrimSpace noUnicode [CHR 0x20, CHR 0x09, CHR 0x0A] = [] \<and>
   chat_iteration noUnicode (mock ([answer ''Hi''], None) ([], None))
       (Inr [CHR 0x20, CHR 0x09, CHR 0x0A]) chat_ready =
     (Next, chat_ready\<lparr>stdout := prompt\<rparr>) \<and>
   gen_iteration noUnicode (mock ([answer ''Hi''], None) ([], None)) fallback
       (Inr [CHR 0x20, CHR 0x09, CHR 0x0A]) gen_ready =
     (Next, gen_ready\<lparr>stdout := prompt\<rparr>)"
proof -
  have blank: "TrimSpace noUnicode [CHR 0x20, CHR 0x09, CHR 0x0A] = []"
    by (simp add: RuneSelf_def asciiSpace_def)
  from blank_line_is_ignored [OF blank,
      of "mock ([answer ''Hi''], None) ([], None)" chat_ready fallback gen_ready]
  show ?thesis using blank by (simp add: chat_ready_def gen_ready_def)
qed

text \<open>
  Claim C10.  A line that is exactly \<open>quit\<close> after trimming ends the loop as \<open>exit\<close>
  does.  The comparison with \<open>quit\<close> is made on the text as typed: a line such as
  \<open>QUIT\<close>, which differs from \<open>quit\<close> only in the case of its letters, does not end the
  loop; the history-keeping variant appends it as a user turn and sends it, and the
  single-prompt variant sends it as the prompt.
\<close>

theorem quit_is_matched_case_sensitively:
  "(TrimSpace U line = ''quit'' \<longrightarrow>
      chat_loop U c (Inr line # rest) st =
        (Break, st\<lparr>stdout := stdout st @ prompt @ goodbye @ [LF]\<rparr>) \<and>
      gen_loop U c systemMsg (Inr line # rest) w =
        (Break, w\<lparr>stdout := stdout w @ prompt @ goodbye @ [LF]\<rparr>)) \<and>
   (isASCII (TrimSpace U line) \<and> map lowerByte (TrimSpace U line) = ''quit'' \<and>
    TrimSpace U line \<noteq> ''quit'' \<and>
    Chat c (Timeout (nextScope st) 30)
      \<lparr>Model = defaultModel,
       Messages = messages st @
         [\<lparr>Role = ''user'', Content = TrimSpace U line, Thinking = []\<rparr>],
       Think = ''low''\<rparr> = (frags, err) \<longrightarrow>
      fst (chat_iteration U c (Inr line) st) = Next \<and>
      messages (snd (chat_iteration U c (Inr line) st)) =
        messages st @
          [\<lparr>Role = ''user'', Content = TrimSpace U line, Thinking = []\<rparr>,
           \<lparr>Role = ''assistant'', Content = concat (map (Content \<circ> Message) frags),
            Thinking = []\<rparr>] \<and>
      fst (gen_iteration U c systemMsg (Inr line) w) = Next \<and>
      requests (snd (gen_iteration U c systemMsg (Inr line) w)) =
        requests w @ [GenerateCall (Timeout (nextScope w) 30)
          \<lparr>GenModel = defaultModel, Prompt = TrimSpace U line, System = systemMsg,
           GenThink = ''low''\<rparr>])"
proof (intro conjI impI)
  assume q: "TrimSpace U line = ''quit''"
  then have e: "ToLower U (TrimSpace U line) = ''exit'' \<or> TrimSpace U line = ''quit''" by simp
  show "chat_loop U c (Inr line # rest) st =
        (Break, st\<lparr>stdout := stdout st @ prompt @ goodbye @ [LF]\<rparr>)"
    by (simp add: chat_iteration_exit [OF e])
  show "gen_loop U c systemMsg (Inr line # rest) w =
        (Break, w\<lparr>stdout := stdout w @ prompt @ goodbye @ [LF]\<rparr>)"
    by (simp add: gen_iteration_exit [OF e])
next
  assume a: "isASCII (TrimSpace U line) \<and> map lowerByte (TrimSpace U line) = ''quit'' \<and>
    TrimSpace U line \<noteq> ''quit'' \<and>
    Chat c (Timeout (nextScope st) 30)
      \<lparr>Model = defaultModel,
       Messages = messages st @
         [\<lparr>Role = ''user'', Content = TrimSpace U line, Thinking = []\<rparr>],
       Think = ''low''\<rparr> = (frags, err)"
  then have low: "ToLower U (TrimSpace U line) = ''quit''" by (simp add: ToLower_ascii)
  have ne: "TrimSpace U line \<noteq> []" using a by auto
  have nx: "\<not> (ToLower U (TrimSpace U line) = ''exit'' \<or> TrimSpace U line = ''quit'')"
    using a low by simp
  have ch: "Chat c (Timeout (nextScope st) 30)
           \<lparr>Model = defaultModel,
            Messages = messages st @
              [\<lparr>Role = ''user'', Content = TrimSpace U line, Thinking = []\<rparr>],
            Think = ''low''\<rparr> = (frags, err)"
    using a by simp
  obtain gfrags gerr where ge: "Generate c (Timeout (nextScope w) 30)
           \<lparr>GenModel = defaultModel, Prompt = TrimSpace U line, System = systemMsg,
            GenThink = ''low''\<rparr> = (gfrags, gerr)"
    by fastforce
  note c = chat_iteration_turn [OF refl ne nx ch]
  note g = gen_iteration_turn [OF refl ne nx ge]
  show "fst (chat_iteration U c (Inr line) st) = Next" by (simp add: c)
  show "messages (snd (chat_iteration U c (Inr line) st)) =
        messages st @
          [\<lparr>Role = ''user'', Content = TrimSpace U line, Thinking = []\<rparr>,
           \<lparr>Role = ''assistant'', Content = concat (map (Content \<circ> Message) frags),
            Thinking = []\<rparr>]"
    by (simp add: c)
  show "fst (gen_iteration U c systemMsg (Inr line) w) = Next" by (simp add: g)
  show "requests (snd (gen_iteration U c systemMsg (Inr line) w)) =
        requests w @ [GenerateCall (Timeout (nextScope w) 30)
          \<lparr>GenModel = defaultModel, Prompt = TrimSpace U line, System = systemMsg,
           GenThink = ''low''\<rparr>]"
    by (simp add: g)
qed

text \<open>The lines \<open>quit\<close> and \<open>QUIT\<close>.\<close>

theorem quit_is_matched_case_sensitively_witness:
  "TrimSpace noUnicode ''quit\<newline>'' = ''quit'' \<and>
   chat_loop noUnicode (mock ([answer ''Hi''], None) ([], None))
       [Inr ''quit\<newline>'', Inr ''more\<newline>''] chat_ready =
     (Break, chat_ready\<lparr>stdout := prompt @ goodbye @ [LF]\<rparr>) \<and>
   isASCII ''QUIT'' \<and> map lowerByte ''QUIT'' = ''quit'' \<and>
   TrimSpace noUnicode ''QUIT\<newline>'' = ''QUIT'' \<and>
   fst (chat_iteration noUnicode (mock ([answer ''Hi''], None) ([], None))
         (Inr ''QUIT\<newline>'') chat_ready) = Next \<and>
   messages (snd (chat_iteration noUnicode (mock ([answer ''Hi''], None) ([], None))
         (Inr ''QUIT\<newline>'') chat_ready)) =
     [\<lparr>Role = ''system'', Content = fallback, Thinking = []\<rparr>,
      \<lparr>Role = ''user'', Content = ''QUIT'', Thinking = []\<rparr>,
      \<lparr>Role = ''assistant'', Content = ''Hi'', Thinking = []\<rparr>]"
proof -
  have q: "TrimSpace noUnicode ''quit\<newline>'' = ''quit''"
    and Q: "TrimSpace noUnicode ''QUIT\<newline>'' = ''QUIT''"
    by (simp_all add: RuneSelf_def asciiSpace_def)
  have asc: "isASCII ''QUIT''" by (simp add: isASCII_def RuneSelf_def)
  have low: "map lowerByte ''QUIT'' = ''quit''" by code_simp
  note inst = quit_is_matched_case_sensitively
    [of noUnicode _ "mock ([answer ''Hi''], None) ([], None)" _ chat_ready fallback gen_ready]
  have 1: "chat_loop noUnicode (mock ([answer ''Hi''], None) ([], None))
       [Inr ''quit\<newline>'', Inr ''more\<newline>''] chat_ready =
     (Break, chat_ready\<lparr>stdout := prompt @ goodbye @ [LF]\<rparr>)"
    using inst [of "''quit\<newline>''" "[Inr ''more\<newline>'']"] q
    by (simp add: chat_ready_def del: chat_loop.simps gen_loop.simps)
  have 2: "fst (chat_iteration noUnicode (mock ([answer ''Hi''], None) ([], None))
         (Inr ''QUIT\<newline>'') chat_ready) = Next \<and>
     messages (snd (chat_iteration noUnicode (mock ([answer ''Hi''], None) ([], None))
         (Inr ''QUIT\<newline>'') chat_ready)) =
     [\<lparr>Role = ''system'', Content = fallback, Thinking = []\<rparr>,
      \<lparr>Role = ''user'', Content = ''QUIT'', Thinking = []\<rparr>,
      \<lparr>Role = ''assistant'', Content = ''Hi'', Thinking = []\<rparr>]"
    using inst [of "''QUIT\<newline>''" "[]" "[answer ''Hi'']" None] Q asc low
    by (simp add: chat_ready_def mock_def answer_def del: chat_loop.simps gen_loop.simps)
  from 1 2 q Q asc low show ?thesis by blast
qed

text \<open>
  Claim C5, as amended.  When a streaming completion call fails, the error is reported
  on standard output, after whatever the fragments have printed; nothing is written to
  standard error.  The history keeps the user turn and the assistant turn appended in
  this iteration, and the loop goes on to the next read.  In the single-prompt variant
  the report is the same and the loop goes on as well.
\<close>

theorem failed_call_is_reported_on_stdout_and_loop_continues:
  "(TrimSpace U line \<noteq> [] \<and>
    \<not> (ToLower U (TrimSpace U line) = ''exit'' \<or> TrimSpace U line = ''quit'') \<and>
    Chat c (Timeout (nextScope st) 30)
      \<lparr>Model = defaultModel,
       Messages = messages st @
         [\<lparr>Role = ''user'', Content = TrimSpace U line, Thinking = []\<rparr>],
       Think = ''low''\<rparr> = (frags, Some e) \<longrightarrow>
    fst (chat_iteration U c (Inr line) st) = Next \<and>
    chat_loop U c (Inr line # rest) st =
      chat_loop U c rest (snd (chat_iteration U c (Inr line) st)) \<and>
    stdout (snd (chat_iteration U c (Inr line) st)) =
      stdout st @ prompt @ concat (map showContent frags) @ generationFailed e @ [LF] \<and>
    stderr (snd (chat_iteration U c (Inr line) st)) = stderr st \<and>
    messages (snd (chat_iteration U c (Inr line) st)) =
      messages st @
        [\<lparr>Role = ''user'', Content = TrimSpace U line, Thinking = []\<rparr>,
         \<lparr>Role = ''assistant'', Content = concat (map (Content \<circ> Message) frags),
          Thinking = []\<rparr>]) \<and>
   (TrimSpace U line \<noteq> [] \<and>
    \<not> (ToLower U (TrimSpace U line) = ''exit'' \<or> TrimSpace U line = ''quit'') \<and>
    Generate c (Timeout (nextScope w) 30)
      \<lparr>GenModel = defaultModel, Prompt = TrimSpace U line, System = systemMsg,
       GenThink = ''low''\<rparr> = (gfrags, Some e) \<longrightarrow>
    fst (gen_iteration U c systemMsg (Inr line) w) = Next \<and>
    gen_loop U c systemMsg (Inr line # rest) w =
      gen_loop U c systemMsg rest (snd (gen_iteration U c systemMsg (Inr line) w)) \<and>
    stdout (snd (gen_iteration U c systemMsg (Inr line) w)) =
      stdout w @ prompt @ printed (foldl generateCallback closure0 gfrags) @
        generationFailed e \<and>
    stderr (snd (gen_iteration U c systemMsg (Inr line) w)) = stderr w)"
proof (intro conjI impI)
  assume a: "TrimSpace U line \<noteq> [] \<and>
    \<not> (ToLower U (TrimSpace U line) = ''exit'' \<or> TrimSpace U line = ''quit'') \<and>
    Chat c (Timeout (nextScope st) 30)
      \<lparr>Model = defaultModel,
       Messages = messages st @
         [\<lparr>Role = ''user'', Content = TrimSpace U line, Thinking = []\<rparr>],
       Think = ''low''\<rparr> = (frags, Some e)"
  then have "TrimSpace U line \<noteq> []"
    and "\<not> (ToLower U (TrimSpace U line) = ''exit'' \<or> TrimSpace U line = ''quit'')"
    and "Chat c (Timeout (nextScope st) 30)
      \<lparr>Model = defaultModel,
       Messages = messages st @
         [\<lparr>Role = ''user'', Content = TrimSpace U line, Thinking = []\<rparr>],
       Think = ''low''\<rparr> = (frags, Some e)"
    by simp_all
  note it = chat_iteration_turn [OF refl this]
  show "fst (chat_iteration U c (Inr line) st) = Next" by (simp add: it)
  show "chat_loop U c (Inr line # rest) st =
      chat_loop U c rest (snd (chat_iteration U c (Inr line) st))" by (simp add: it)
  show "stdout (snd (chat_iteration U c (Inr line) st)) =
      stdout st @ prompt @ concat (map showContent frags) @ generationFailed e @ [LF]"
    by (simp add: it)
  show "stderr (snd (chat_iteration U c (Inr line) st)) = stderr st" by (simp add: it)
  show "messages (snd (chat_iteration U c (Inr line) st)) =
      messages st @
        [\<lparr>Role = ''user'', Content = TrimSpace U line, Thinking = []\<rparr>,
         \<lparr>Role = ''assistant'', Content = concat (map (Content \<circ> Message) frags),
          Thinking = []\<rparr>]" by (simp add: it)
next
  assume a: "TrimSpace U line \<noteq> [] \<and>
    \<not> (ToLower U (TrimSpace U line) = ''exit'' \<or> TrimSpace U line = ''quit'') \<and>
    Generate c (Timeout (nextScope w) 30)
      \<lparr>GenModel = defaultModel, Prompt = TrimSpace U line, System = systemMsg,
       GenThink = ''low''\<rparr> = (gfrags, Some e)"
  then have "TrimSpace U line \<noteq> []"
    and "\<not> (ToLower U (TrimSpace U line) = ''exit'' \<or> TrimSpace U line = ''quit'')"
    and "Generate c (Timeout (nextScope w) 30)
      \<lparr>GenModel = defaultModel, Prompt = TrimSpace U line, System = systemMsg,
       GenThink = ''low''\<rparr> = (gfrags, Some e)"
    by simp_all
  note it = gen_iteration_turn [OF refl this]
  show "fst (gen_iteration U c systemMsg (Inr line) w) = Next" by (simp add: it)
  show "gen_loop U c systemMsg (Inr line # rest) w =
      gen_loop U c systemMsg rest (snd (gen_iteration U c systemMsg (Inr line) w))"
    by (simp add: it)
  show "stdout (snd (gen_iteration U c systemMsg (Inr line) w)) =
      stdout w @ prompt @ printed (foldl generateCallback closure0 gfrags) @
        generationFailed e" by (simp add: it)
  show "stderr (snd (gen_iteration U c systemMsg (Inr line) w)) = stderr w" by (simp add: it)
qed

text \<open>
  A call that delivers the fragment \<open>Hi\<close> and then fails with \<open>connection refused\<close>.
\<close>

theorem failed_call_is_reported_on_stdout_and_loop_continues_witness:
  "TrimSpace noUnicode ''hello\<newline>'' = ''hello'' \<and> ToLower noUnicode ''hello'' = ''hello'' \<and>
   fst (chat_iteration noUnicode
          (mock ([answer ''Hi''], Some ''connection refused'') ([], Some ''connection refused''))
          (Inr ''hello\<newline>'') chat_ready) = Next \<and>
   stdout (snd (chat_iteration noUnicode
          (mock ([answer ''Hi''], Some ''connection refused'') ([], Some ''connection refused''))
          (Inr ''hello\<newline>'') chat_ready)) =
     prompt @ Blue @ ''Hi'' @ Reset @ generationFailed ''connection refused'' @ [LF] \<and>
   stderr (snd (chat_iteration noUnicode
          (mock ([answer ''Hi''], Some ''connection refused'') ([], Some ''connection refused''))
          (Inr ''hello\<newline>'') chat_ready)) = [] \<and>
   messages (snd (chat_iteration noUnicode
          (mock ([answer ''Hi''], Some ''connection refused'') ([], Some ''connection refused''))
          (Inr ''hello\<newline>'') chat_ready)) =
     [\<lparr>Role = ''system'', Content = fallback, Thinking = []\<rparr>,
      \<lparr>Role = ''user'', Content = ''hello'', Thinking = []\<rparr>,
      \<lparr>Role = ''assistant'', Content = ''Hi'', Thinking = []\<rparr>] \<and>
   fst (gen_iteration noUnicode
          (mock ([answer ''Hi''], Some ''connection refused'') ([], Some ''connection refused''))
          fallback (Inr ''hello\<newline>'') gen_ready) = Next \<and>
   stdout (snd (gen_iteration noUnicode
          (mock ([answer ''Hi''], Some ''connection refused'') ([], Some ''connection refused''))
          fallback (Inr ''hello\<newline>'') gen_ready)) =
     prompt @ generationFailed ''connection refused'' \<and>
   stderr (snd (gen_iteration noUnicode
          (mock ([answer ''Hi''], Some ''connection refused'') ([], Some ''connection refused''))
          fallback (Inr ''hello\<newline>'') gen_ready)) = []"
proof -
  have t: "TrimSpace noUnicode ''hello\<newline>'' = ''hello''"
    by (simp add: RuneSelf_def asciiSpace_def)
  have l: "ToLower noUnicode ''hello'' = ''hello''"
    by (simp add: ToLower_def isASCII_def RuneSelf_def lowerByte_def)
  from failed_call_is_reported_on_stdout_and_loop_continues
    [of noUnicode "''hello\<newline>''"
        "mock ([answer ''Hi''], Some ''connection refused'') ([], Some ''connection refused'')"
        chat_ready "[answer ''Hi'']" "''connection refused''" "[]" gen_ready fallback "[]"]
  show ?thesis
    using t l
    by (simp add: mock_def chat_ready_def gen_ready_def showContent_def answer_def closure0_def
          del: chat_loop.simps gen_loop.simps TrimSpace.simps)
qed

text \<open>
  Claim C5, as stated, fails on the report: after a failed call standard error has
  received nothing, the message is on standard output.
\<close>

theorem failed_call_writes_nothing_to_stderr:
  "stderr (snd (chat_iteration noUnicode (mock ([], Some ''connection refused'') ([], None))
       (Inr ''hello\<newline>'') chat_ready)) = [] \<and>
   stdout (snd (chat_iteration noUnicode (mock ([], Some ''connection refused'') ([], None))
       (Inr ''hello\<newline>'') chat_ready)) =
     prompt @ generationFailed ''connection refused'' @ [LF]"
  by (simp add: chat_iteration_def Let_def Print_def Println_def WithTimeout_def call_def
        cancel_def closure0_def mock_def chat_ready_def RuneSelf_def asciiSpace_def
        ToLower_def isASCII_def lowerByte_def)

text \<open>
  Claim C9.  In the single-prompt variant, a fragment \<open>g\<close> with answer text finalizes the
  reasoning display: \<open>thinkingDone\<close> is set, and what the call prints for the fragments
  after \<open>g\<close> is their answer text alone (\<open>showResponse\<close> does not look at the reasoning
  field), whatever reasoning text they carry.  Before that, a reasoning text of more than
  100 bytes is displayed as its first 100 bytes followed by three dots.
\<close>

theorem reasoning_display_is_finalized_by_answer_text:
  "(Response g \<noteq> [] \<longrightarrow>
      thinkingDone (foldl generateCallback s (earlier @ [g])) \<and>
      printed (foldl generateCallback s (earlier @ g # later)) =
        printed (foldl generateCallback s (earlier @ [g])) @ concat (map showResponse later)) \<and>
   (\<not> thinkingDone s \<and> 100 < length (GenThinking g) \<longrightarrow>
      printed (generateCallback s g) =
        printed s @ thinkingLine (take 100 (GenThinking g) @ ''...'') @
          (if Response g = [] then [] else thoughtComplete @ Blue @ Response g @ Reset))"
proof (intro conjI impI)
  assume "Response g \<noteq> []"
  then show fin: "thinkingDone (foldl generateCallback s (earlier @ [g]))"
    by (simp add: generateCallback_finalizes)
  from generateCallback_after_done [OF fin, of later]
  show "printed (foldl generateCallback s (earlier @ g # later)) =
      printed (foldl generateCallback s (earlier @ [g])) @ concat (map showResponse later)"
    by simp
next
  assume "\<not> thinkingDone s \<and> 100 < length (GenThinking g)"
  then show "printed (generateCallback s g) =
      printed s @ thinkingLine (take 100 (GenThinking g) @ ''...'') @
        (if Response g = [] then [] else thoughtComplete @ Blue @ Response g @ Reset)"
    by (auto simp: generateCallback_def Let_def maxLen_def)
qed

text \<open>
  A fragment with 104 bytes of reasoning and the answer text \<open>Hi\<close>, followed by a
  fragment that carries both a reasoning text and the answer text \<open> there\<close>.
\<close>

theorem reasoning_display_is_finalized_by_answer_text_witness:
  "Response (token (replicate 104 CHR ''a'') ''Hi'') \<noteq> [] \<and>
   \<not> thinkingDone closure0 \<and>
   100 < length (GenThinking (token (replicate 104 CHR ''a'') ''Hi'')) \<and>
   printed (foldl generateCallback closure0
      [token (replicate 104 CHR ''a'') ''Hi'', token ''late thought'' '' there'']) =
     thinkingLine (replicate 100 CHR ''a'' @ ''...'') @ thoughtComplete @
     Blue @ ''Hi'' @ Reset @ Blue @ '' there'' @ Reset"
  using reasoning_display_is_finalized_by_answer_text
    [of "token (replicate 104 CHR ''a'') ''Hi''" closure0 "[]"
        "[token ''late thought'' '' there'']"]
  by (simp add: token_def closure0_def showResponse_def)

text \<open>
  Claim C6.  When \<open>system.txt\<close> cannot be read, the system message is the fallback text
  and the start-up of either variant goes on exactly as it does with a file that holds
  the fallback text, so the missing file ends nothing.  When the file can be read, the
  system message is \<open>TrimSpace\<close> of its contents; for ASCII contents that is the contents
  without a run of white space at the front and one at the back, with no white space
  left at either end.  The message so obtained is the content of the system turn that
  starts the history, and the \<open>System\<close> field of the single-prompt variant.
\<close>

theorem system_message_is_file_contents_or_fallback:
  "(ReadFile ''system.txt'' = Inl err \<longrightarrow>
      systemMessage U ReadFile = ''You are a helpful assistant.'' \<and>
      chat_startup U ReadFile env =
        chat_startup U (with_file ''You are a helpful assistant.'') env \<and>
      gen_startup U ReadFile env =
        gen_startup U (with_file ''You are a helpful assistant.'') env) \<and>
   (ReadFile ''system.txt'' = Inr data \<longrightarrow>
      systemMessage U ReadFile = TrimSpace U data \<and>
      (isASCII data \<longrightarrow>
         (\<exists>pre suf. data = pre @ systemMessage U ReadFile @ suf \<and>
            list_all asciiSpace pre \<and> list_all asciiSpace suf) \<and>
         (systemMessage U ReadFile = [] \<or>
          (\<not> asciiSpace (hd (systemMessage U ReadFile)) \<and>
           \<not> asciiSpace (last (systemMessage U ReadFile)))))) \<and>
   (chat_startup U ReadFile env = Ready (c, st) \<longrightarrow>
      messages st = [\<lparr>Role = ''system'', Content = systemMessage U ReadFile, Thinking = []\<rparr>]) \<and>
   (gen_startup U ReadFile env = Ready (c, systemMsg, w) \<longrightarrow>
      systemMsg = systemMessage U ReadFile)"
proof (intro conjI impI)
  assume absent: "ReadFile ''system.txt'' = Inl err"
  then show fb: "systemMessage U ReadFile = ''You are a helpful assistant.''"
    by (simp add: systemMessage_cases fallback_def)
  have "systemMessage U (with_file ''You are a helpful assistant.'') =
      ''You are a helpful assistant.''"
    using TrimSpace_fallback [of U] by (simp add: systemMessage_cases with_file_def fallback_def)
  with fb have same: "systemMessage U ReadFile =
      systemMessage U (with_file ''You are a helpful assistant.'')" by simp
  show "chat_startup U ReadFile env =
      chat_startup U (with_file ''You are a helpful assistant.'') env"
    by (rule chat_startup_systemMessage [OF same])
  show "gen_startup U ReadFile env =
      gen_startup U (with_file ''You are a helpful assistant.'') env"
    by (rule gen_startup_systemMessage [OF same])
next
  assume present: "ReadFile ''system.txt'' = Inr data"
  then show eq: "systemMessage U ReadFile = TrimSpace U data"
    by (simp add: systemMessage_cases)
  assume asc: "isASCII data"
  from TrimSpace_ascii [OF asc, of U]
  show "\<exists>pre suf. data = pre @ systemMessage U ReadFile @ suf \<and>
            list_all asciiSpace pre \<and> list_all asciiSpace suf"
    unfolding eq by blast
  from TrimSpace_ascii [OF asc, of U]
  show "systemMessage U ReadFile = [] \<or>
          (\<not> asciiSpace (hd (systemMessage U ReadFile)) \<and>
           \<not> asciiSpace (last (systemMessage U ReadFile)))"
    unfolding eq by blast
next
  assume "chat_startup U ReadFile env = Ready (c, st)"
  from chat_startup_Ready [OF this]
  show "messages st =
      [\<lparr>Role = ''system'', Content = systemMessage U ReadFile, Thinking = []\<rparr>]"
    by simp
next
  assume "gen_startup U ReadFile env = Ready (c, systemMsg, w)"
  from gen_startup_Ready [OF this] show "systemMsg = systemMessage U ReadFile" by simp
qed

text \<open>
  A directory without the file, and one whose file holds \<open>"  Be brief. \n"\<close>; the server
  accepts every call of the start-up.
\<close>

theorem system_message_is_file_contents_or_fallback_witness:
  "no_file ''system.txt'' = Inl ''no such file or directory'' \<and>
   systemMessage noUnicode no_file = ''You are a helpful assistant.'' \<and>
   chat_startup noUnicode no_file (Inr (mock ([], None) ([], None))) =
     Ready (mock ([], None) ([], None), chat_ready) \<and>
   messages chat_ready =
     [\<lparr>Role = ''system'', Content = ''You are a helpful assistant.'', Thinking = []\<rparr>] \<and>
   gen_startup noUnicode no_file (Inr (mock ([], None) ([], None))) =
     Ready (mock ([], None) ([], None), fallback, gen_ready) \<and>
   with_file ''  Be brief. \<newline>'' ''system.txt'' = Inr ''  Be brief. \<newline>'' \<and>
   isASCII ''  Be brief. \<newline>'' \<and>
   systemMessage noUnicode (with_file ''  Be brief. \<newline>'') = ''Be brief.'' \<and>
   fallback = systemMessage noUnicode no_file \<and>
   (\<exists>pre suf. ''  Be brief. \<newline>'' = pre @ ''Be brief.'' @ suf \<and>
      list_all asciiSpace pre \<and> list_all asciiSpace suf)"
proof -
  let ?m = "mock ([], None) ([], None)"
  have absent: "no_file ''system.txt'' = Inl ''no such file or directory''"
    by (simp add: no_file_def)
  have present: "with_file ''  Be brief. \<newline>'' ''system.txt'' = Inr ''  Be brief. \<newline>''"
    by (simp add: with_file_def)
  have asc: "isASCII ''  Be brief. \<newline>''" by (simp add: isASCII_def RuneSelf_def)
  have trim: "TrimSpace noUnicode ''  Be brief. \<newline>'' = ''Be brief.''"
    by (simp add: RuneSelf_def asciiSpace_def)
  have chat: "chat_startup noUnicode no_file (Inr ?m) = Ready (?m, chat_ready)"
    by (rule chat_startup_mock)
  have gen: "gen_startup noUnicode no_file (Inr ?m) = Ready (?m, fallback, gen_ready)"
    by (rule gen_startup_mock)
  note without = system_message_is_file_contents_or_fallback
      [of no_file "''no such file or directory''" noUnicode "Inr ?m" _ ?m chat_ready
          fallback gen_ready]
  note within = system_message_is_file_contents_or_fallback
      [of "with_file ''  Be brief. \<newline>''" _ noUnicode _ "''  Be brief. \<newline>''"]
  have a1: "systemMessage noUnicode no_file = ''You are a helpful assistant.''"
    using without [THEN conjunct1, THEN mp, OF absent] by (rule conjunct1)
  have a2: "messages chat_ready =
      [\<lparr>Role = ''system'', Content = systemMessage noUnicode no_file, Thinking = []\<rparr>]"
    using without [THEN conjunct2, THEN conjunct2, THEN conjunct1, THEN mp, OF chat] .
  have a3: "systemMessage noUnicode (with_file ''  Be brief. \<newline>'') =
      TrimSpace noUnicode ''  Be brief. \<newline>''"
    using within [THEN conjunct2, THEN conjunct1, THEN mp, OF present] by (rule conjunct1)
  from a2 have a2': "messages chat_ready =
      [\<lparr>Role = ''system'', Content = ''You are a helpful assistant.'', Thinking = []\<rparr>]"
    unfolding a1 .
  from a3 have a3': "systemMessage noUnicode (with_file ''  Be brief. \<newline>'') = ''Be brief.''"
    unfolding trim .
  have a4: "fallback = systemMessage noUnicode no_file"
    using without [THEN conjunct2, THEN conjunct2, THEN conjunct2, THEN mp, OF gen] .
  have "\<exists>pre suf. ''  Be brief. \<newline>'' =
      pre @ systemMessage noUnicode (with_file ''  Be brief. \<newline>'') @ suf \<and>
      list_all asciiSpace pre \<and> list_all asciiSpace suf"
    using within [THEN conjunct2, THEN conjunct1, THEN mp, OF present, THEN conjunct2,
        THEN mp, OF asc] by (rule conjunct1)
  then have a5: "\<exists>pre suf. ''  Be brief. \<newline>'' = pre @ ''Be brief.'' @ suf \<and>
      list_all asciiSpace pre \<and> list_all asciiSpace suf"
    unfolding a3' .
  from absent a1 chat a2' gen present asc a3' a4 a5 show ?thesis by (intro conjI)
qed

text \<open>
  Claim C7, as amended.  The scope of 5 seconds made at the start of \<open>main\<close> (scope 0) is
  the context of the connectivity check and also of the version query and of the model
  listing, which follow it directly.  The pull of the embedding model runs under
  \<open>context.Background()\<close>, with no deadline.  Every completion call of the loop runs
  under a scope of 30 seconds of its own: the calls logged after the start-up are
  completion calls, and their contexts are the scopes 1, 2, ... in this order, each used
  once.  The statement leaves open under which contexts the embedding call and the show
  call, which come after the pull, are made.
\<close>

theorem version_and_listing_share_the_startup_scope:
  assumes "gen_startup U ReadFile env = Ready (c, systemMsg, w0)"
    and "gen_loop U c systemMsg reads w0 = (fl, w)"
  shows "\<exists>embedCtx showCtx comps.
           requests w =
             [HeartbeatCall (Timeout 0 5), VersionCall (Timeout 0 5), ListCall (Timeout 0 5),
              PullCall Background embeddingModel,
              EmbedCall embedCtx embeddingModel embedInput,
              ShowCall showCtx defaultModel] @ comps \<and>
           (\<forall>r \<in> set comps. \<exists>x req. r = GenerateCall x req) \<and>
           map scope comps = map (\<lambda>i. Timeout i 30) [1 ..< nextScope w]"
proof -
  from gen_startup_Ready [OF assms(1)]
  have w0: "requests w0 =
      [HeartbeatCall (Timeout 0 5), VersionCall (Timeout 0 5), ListCall (Timeout 0 5),
       PullCall Background embeddingModel,
       EmbedCall (Timeout 0 5) embeddingModel embedInput,
       ShowCall (Timeout 0 5) defaultModel]" and n: "nextScope w0 = 1"
    by simp_all
  from gen_loop_requests [OF assms(2)] obtain comps where
    "requests w = requests w0 @ comps"
    "\<forall>r \<in> set comps. \<exists>x req. r = GenerateCall x req"
    "map scope comps = map (\<lambda>i. Timeout i 30) [nextScope w0 ..< nextScope w]"
    by blast
  then show ?thesis unfolding w0 n by blast
qed

text \<open>
  A start-up without \<open>system.txt\<close> and two prompts: the two completion calls run under
  the scopes 1 and 2.
\<close>

theorem version_and_listing_share_the_startup_scope_witness:
  "gen_startup noUnicode no_file (Inr (mock ([], None) ([token [] ''Hi''], None))) =
     Ready (mock ([], None) ([token [] ''Hi''], None), fallback, gen_ready) \<and>
   (\<exists>embedCtx showCtx comps.
      requests (snd (gen_loop noUnicode (mock ([], None) ([token [] ''Hi''], None)) fallback
                  [Inr ''hi\<newline>'', Inr ''more\<newline>''] gen_ready)) =
        [HeartbeatCall (Timeout 0 5), VersionCall (Timeout 0 5), ListCall (Timeout 0 5),
         PullCall Background embeddingModel,
         EmbedCall embedCtx embeddingModel embedInput,
         ShowCall showCtx defaultModel] @ comps \<and>
      (\<forall>r \<in> set comps. \<exists>x req. r = GenerateCall x req) \<and>
      map scope comps = [Timeout 1 30, Timeout 2 30])"
proof -
  let ?m = "mock ([], None) ([token [] ''Hi''], None)"
  let ?w = "snd (gen_loop noUnicode ?m fallback [Inr ''hi\<newline>'', Inr ''more\<newline>''] gen_ready)"
  have start: "gen_startup noUnicode no_file (Inr ?m) = Ready (?m, fallback, gen_ready)"
    by (rule gen_startup_mock)
  have run: "gen_loop noUnicode ?m fallback [Inr ''hi\<newline>'', Inr ''more\<newline>''] gen_ready =
      (Next, ?w)"
    by (simp add: gen_two_prompts del: gen_loop.simps)
  have n: "nextScope ?w = 3" by (simp add: gen_two_prompts del: gen_loop.simps)
  have upt: "map (\<lambda>i. Timeout i 30) [1 ..< 3] = [Timeout 1 30, Timeout 2 30]"
    by (simp add: upt_rec)
  from version_and_listing_share_the_startup_scope [OF start run]
  have "\<exists>embedCtx showCtx comps.
      requests ?w =
        [HeartbeatCall (Timeout 0 5), VersionCall (Timeout 0 5), ListCall (Timeout 0 5),
         PullCall Background embeddingModel,
         EmbedCall embedCtx embeddingModel embedInput,
         ShowCall showCtx defaultModel] @ comps \<and>
      (\<forall>r \<in> set comps. \<exists>x req. r = GenerateCall x req) \<and>
      map scope comps = [Timeout 1 30, Timeout 2 30]"
    unfolding n upt .
  with start show ?thesis by (rule conjI)
qed

text \<open>
  Claim C7, as stated, fails: in a start-up where every call succeeds, the version query
  and the model listing are made under the scope of 5 seconds that the connectivity
  check is made under.
\<close>

theorem version_and_listing_run_under_the_five_second_scope:
  "gen_startup noUnicode no_file (Inr (mock ([], None) ([], None))) =
     Ready (mock ([], None) ([], None), fallback, gen_ready) \<and>
   take 3 (requests gen_ready) =
     [HeartbeatCall (Timeout 0 5), VersionCall (Timeout 0 5), ListCall (Timeout 0 5)]"
  by (simp add: gen_startup_mock gen_ready_def)

text \<open>
  Claim C8 fails in the single-prompt variant (main.go, line 146).  There the cancel
  function of each completion call is registered with \<open>defer\<close> inside the loop, so it
  runs when \<open>main\<close> returns and not when the call returns: after two prompts, at the head
  of the third iteration, the scopes 1 and 2 of the two finished calls are still held,
  next to scope 0 of the start-up.
\<close>

theorem deferred_cancel_keeps_completion_scopes_held:
  "fst (gen_loop noUnicode (mock ([], None) ([token [] ''Hi''], None)) fallback
          [Inr ''hi\<newline>'', Inr ''more\<newline>''] gen_ready) = Next \<and>
   held (snd (gen_loop noUnicode (mock ([], None) ([token [] ''Hi''], None)) fallback
          [Inr ''hi\<newline>'', Inr ''more\<newline>''] gen_ready)) = [2, 1, 0] \<and>
   deferred (snd (gen_loop noUnicode (mock ([], None) ([token [] ''Hi''], None)) fallback
          [Inr ''hi\<newline>'', Inr ''more\<newline>''] gen_ready)) = [2, 1, 0]"
  by (simp add: gen_two_prompts del: gen_loop.simps)

end
